theory Spec2Isabelle
  imports Main
begin

section \<open>Python text\<close>

text \<open>
  A Python \<open>str\<close> is a sequence of Unicode code points, so text is a list of
  naturals. The scripts print three characters outside ASCII (the cross mark, the
  check mark and the robot face); they are the code points below.
\<close>

type_synonym pystr = "nat list"

definition py :: "string \<Rightarrow> pystr" where
  "py s = map of_char s"

definition cross_mark :: nat where
  "cross_mark = 0x274C"

definition check_mark :: nat where
  "check_mark = 0x2705"

definition robot_face :: nat where
  "robot_face = 0x1F916"

text \<open>\<open>str(n)\<close> for an integer: decimal digits, with a minus sign when negative.\<close>

fun str_nat :: "nat \<Rightarrow> pystr" where
  "str_nat n = (if n < 10 then [48 + n] else str_nat (n div 10) @ [48 + n mod 10])"

declare str_nat.simps [simp del]

definition str_int :: "int \<Rightarrow> pystr" where
  "str_int i = (if i < 0 then 45 # str_nat (nat (- i)) else str_nat (nat i))"

text \<open>\<open>sep.join(xs)\<close>.\<close>

fun py_join :: "pystr \<Rightarrow> pystr list \<Rightarrow> pystr" where
  "py_join sep [] = []"
| "py_join sep [x] = x"
| "py_join sep (x # y # ys) = x @ sep @ py_join sep (y # ys)"

text \<open>
  \<open>s.strip()\<close> removes leading and trailing whitespace; \<open>py_isspace\<close> lists the
  code points CPython's \<open>str.isspace\<close> accepts.
\<close>

definition py_isspace :: "nat \<Rightarrow> bool" where
  "py_isspace c =
     ((0x09 \<le> c \<and> c \<le> 0x0D) \<or> (0x1C \<le> c \<and> c \<le> 0x20) \<or> c = 0x85 \<or> c = 0xA0 \<or>
      c = 0x1680 \<or> (0x2000 \<le> c \<and> c \<le> 0x200A) \<or> c = 0x2028 \<or> c = 0x2029 \<or>
      c = 0x202F \<or> c = 0x205F \<or> c = 0x3000)"

definition py_strip :: "pystr \<Rightarrow> pystr" where
  "py_strip s = rev (dropWhile py_isspace (rev (dropWhile py_isspace s)))"

section \<open>JSON values and \<open>json.dumps(v, indent=2)\<close>\<close>

text \<open>
  What \<open>response.json()\<close> returns and what \<open>requests.post(json=...)\<close> takes. An
  object keeps its members in insertion order. A float is carried as the text
  \<open>float.__repr__\<close> gives for it, which is what \<open>json.dumps\<close> writes.
\<close>

datatype json =
    JNull
  | JBool bool
  | JInt int
  | JFloat pystr
  | JStr pystr
  | JArr "json list"
  | JObj "(pystr \<times> json) list"

definition hex_digit :: "nat \<Rightarrow> nat" where
  "hex_digit d = (if d < 10 then 48 + d else 87 + d)"

definition hex4 :: "nat \<Rightarrow> pystr" where
  "hex4 n = [hex_digit (n div 4096 mod 16), hex_digit (n div 256 mod 16),
             hex_digit (n div 16 mod 16), hex_digit (n mod 16)]"

text \<open>
  \<open>json.encoder.py_encode_basestring_ascii\<close>: backslash, double quote and every
  code point outside \<open>' '..'~'\<close> are escaped; code points from \<open>0x10000\<close> on become a
  surrogate pair.
\<close>

definition json_escape :: "nat \<Rightarrow> pystr" where
  "json_escape c =
     (if c = 92 then [92, 92]
      else if c = 34 then [92, 34]
      else if c = 8 then [92, 98]
      else if c = 12 then [92, 102]
      else if c = 10 then [92, 110]
      else if c = 13 then [92, 114]
      else if c = 9 then [92, 116]
      else if 32 \<le> c \<and> c \<le> 126 then [c]
      else if c < 0x10000 then [92, 117] @ hex4 c
      else [92, 117] @ hex4 (0xD800 + (c - 0x10000) div 1024 mod 1024) @
           [92, 117] @ hex4 (0xDC00 + (c - 0x10000) mod 1024))"

definition json_string :: "pystr \<Rightarrow> pystr" where
  "json_string s = [34] @ concat (map json_escape s) @ [34]"

definition newline_indent :: "nat \<Rightarrow> pystr" where
  "newline_indent level = 10 # replicate (2 * level) 32"

fun json_encode :: "nat \<Rightarrow> json \<Rightarrow> pystr" where
  "json_encode level JNull = py ''null''"
| "json_encode level (JBool b) = (if b then py ''true'' else py ''false'')"
| "json_encode level (JInt i) = str_int i"
| "json_encode level (JFloat r) = r"
| "json_encode level (JStr s) = json_string s"
| "json_encode level (JArr xs) =
     (if xs = [] then py ''[]''
      else py ''['' @ newline_indent (Suc level) @
           py_join (py '','' @ newline_indent (Suc level)) (map (json_encode (Suc level)) xs) @
           newline_indent level @ py '']'')"
| "json_encode level (JObj kvs) =
     (if kvs = [] then py ''{}''
      else py ''{'' @ newline_indent (Suc level) @
           py_join (py '','' @ newline_indent (Suc level))
             (map (\<lambda>kv. json_string (fst kv) @ py '': '' @ json_encode (Suc level) (snd kv)) kvs) @
           newline_indent level @ py ''}'')"

definition json_dumps_indent2 :: "json \<Rightarrow> pystr" where
  "json_dumps_indent2 v = json_encode 0 v"

section \<open>Python objects loaded from YAML\<close>

text \<open>
  What \<open>yaml.safe_load\<close> constructs. A mapping keeps its entries in insertion order
  (keys distinct, as in a Python \<open>dict\<close>). \<open>POther\<close> stands for the remaining
  objects \<open>safe_load\<close> can build (a float, a date, bytes, a set): only the name of the
  type and the truth value are observable in this program.
\<close>

datatype pyval =
    PNone
  | PBool bool
  | PInt int
  | PStr pystr
  | PList "pyval list"
  | PDict "(pyval \<times> pyval) list"
  | POther pystr bool

fun type_name :: "pyval \<Rightarrow> pystr" where
  "type_name PNone = py ''NoneType''"
| "type_name (PBool b) = py ''bool''"
| "type_name (PInt i) = py ''int''"
| "type_name (PStr s) = py ''str''"
| "type_name (PList xs) = py ''list''"
| "type_name (PDict kvs) = py ''dict''"
| "type_name (POther t b) = t"

text \<open>Truth value testing, as in \<open>if not config\<close>.\<close>

fun py_truthy :: "pyval \<Rightarrow> bool" where
  "py_truthy PNone = False"
| "py_truthy (PBool b) = b"
| "py_truthy (PInt i) = (i \<noteq> 0)"
| "py_truthy (PStr s) = (s \<noteq> [])"
| "py_truthy (PList xs) = (xs \<noteq> [])"
| "py_truthy (PDict kvs) = (kvs \<noteq> [])"
| "py_truthy (POther t b) = b"

text \<open>
  \<open>str(v)\<close> inside an f-string. For a list, a mapping or another object the text
  depends on \<open>repr\<close> of nested strings, which consults the Unicode database; that
  part is the parameter \<open>fmt\<close>, left open.
\<close>

fun py_str :: "(pyval \<Rightarrow> pystr) \<Rightarrow> pyval \<Rightarrow> pystr" where
  "py_str fmt PNone = py ''None''"
| "py_str fmt (PBool b) = (if b then py ''True'' else py ''False'')"
| "py_str fmt (PInt i) = str_int i"
| "py_str fmt (PStr s) = s"
| "py_str fmt v = fmt v"

section \<open>Exceptions, responses and the trace of a run\<close>

text \<open>
  An HTTP response as the script reads it: the status code, the reason phrase and URL
  (they appear in the message of \<open>raise_for_status\<close>), and what \<open>response.json()\<close>
  does: \<open>Inr v\<close> when the body decodes to \<open>v\<close>, \<open>Inl msg\<close> when the body is not
  valid JSON and \<open>requests.exceptions.JSONDecodeError(msg)\<close> is raised.
\<close>

record response =
  status_code :: int
  reason :: pystr
  resp_url :: pystr
  body_json :: "pystr + json"

text \<open>
  The exception classes the handlers tell apart; every one derives from
  \<open>Exception\<close>. The text carried is \<open>str(e)\<close>. \<open>OtherException\<close> is any other
  subclass of \<open>Exception\<close> (an \<open>OSError\<close> that is not \<open>FileNotFoundError\<close>, a
  \<open>yaml.YAMLError\<close>, a \<open>RefreshError\<close>, a \<open>ConnectionError\<close>, a \<open>TypeError\<close>).
  \<open>KeyboardInterrupt\<close> and \<open>SystemExit\<close>, which no handler here catches, are not
  modelled, and \<open>print\<close> is taken to succeed.
\<close>

datatype exn =
    FileNotFoundError pystr
  | DefaultCredentialsError pystr
  | HTTPError pystr response
  | JSONDecodeError pystr
  | KeyError pystr
  | AttributeError pystr
  | OtherException pystr

fun exn_str :: "exn \<Rightarrow> pystr" where
  "exn_str (FileNotFoundError m) = m"
| "exn_str (DefaultCredentialsError m) = m"
| "exn_str (HTTPError m r) = m"
| "exn_str (JSONDecodeError m) = m"
| "exn_str (KeyError m) = m"
| "exn_str (AttributeError m) = m"
| "exn_str (OtherException m) = m"

record http_request =
  http_method :: pystr
  req_url :: pystr
  req_headers :: "(pystr \<times> pystr) list"
  req_json :: json

text \<open>
  What a run does that the outside can see, in order: each \<open>print\<close> (its argument,
  without the newline \<open>print\<close> appends) and each call that leaves the process.
\<close>

datatype event =
    Print pystr
  | OpenFile pystr
  | AuthDefault "pystr list"
  | CredentialsRefresh
  | HttpPost http_request
  | VertexInit pystr pystr
  | MakeGenerativeModel pyval
  | GenerateContent pyval pystr

text \<open>
  A piece of the program run to its end: the events so far, and either the exception
  that left it (\<open>Inl\<close>) or its value (\<open>Inr\<close>).
\<close>

type_synonym 'a run = "event list \<times> (exn + 'a)"

definition run_return :: "'a \<Rightarrow> 'a run" where
  "run_return x = ([], Inr x)"

definition run_result :: "exn + 'a \<Rightarrow> 'a run" where
  "run_result r = ([], r)"

definition run_bind :: "'a run \<Rightarrow> ('a \<Rightarrow> 'b run) \<Rightarrow> 'b run" where
  "run_bind m f =
     (case m of
        (es, Inl e) \<Rightarrow> (es, Inl e)
      | (es, Inr x) \<Rightarrow> (case f x of (es', r) \<Rightarrow> (es @ es', r)))"

definition run_then :: "'a run \<Rightarrow> 'b run \<Rightarrow> 'b run" where
  "run_then m n = run_bind m (\<lambda>_. n)"

definition run_print :: "pystr \<Rightarrow> unit run" where
  "run_print s = ([Print s], Inr ())"

definition run_call :: "event \<Rightarrow> exn + 'a \<Rightarrow> 'a run" where
  "run_call ev r = ([ev], r)"

text \<open>
  \<open>try: m except ... : h\<close>. The handler runs on the exception that left \<open>m\<close>; an
  exception raised by the handler itself leaves the statement.
\<close>

definition run_try :: "'a run \<Rightarrow> (exn \<Rightarrow> 'a run) \<Rightarrow> 'a run" where
  "run_try m h =
     (case m of
        (es, Inl e) \<Rightarrow> (case h e of (es', r) \<Rightarrow> (es @ es', r))
      | (es, Inr x) \<Rightarrow> (es, Inr x))"

text \<open>
  The exit status of the interpreter after \<open>if __name__ == "__main__": f()\<close>: 0 when
  \<open>f\<close> returns, 1 when an exception leaves it (after the traceback).
\<close>

definition exit_code :: "'a run \<Rightarrow> nat" where
  "exit_code r = (case snd r of Inl e \<Rightarrow> 1 | Inr x \<Rightarrow> 0)"

section \<open>\<open>panggil_model.py\<close>: the raw HTTP call\<close>

text \<open>
  The four constants assigned at the top of \<open>panggil_model_vertex\<close> (its comment
  says they may be changed or read from a configuration file) are gathered in a
  record, so that the function can be stated for any of them;
  \<open>panggil_model_vertex\<close> itself runs with the values in the source.
\<close>

record settings =
  PROJECT_ID :: pystr
  REGION :: pystr
  MODEL_ID :: pystr
  PROMPT :: pystr

definition default_settings :: settings where
  "default_settings =
     \<lparr>PROJECT_ID = py ''protean-tooling-476420-i8'',
      REGION = py ''us-south1'',
      MODEL_ID = py ''gemini-1.0-pro'',
      PROMPT = py ''What is the capital of Texas?''\<rparr>"

text \<open>
  The outside world of the script: \<open>google.auth.default(scopes=...)\<close> (it raises, or
  gives credentials), \<open>credentials.refresh(auth_req)\<close> followed by
  \<open>credentials.token\<close> (it raises, or gives the token), and \<open>requests.post\<close> (it
  raises, or gives the response).
\<close>

record http_env =
  auth_default :: "pystr list \<Rightarrow> exn + unit"
  refresh :: "exn + pystr"
  requests_post :: "http_request \<Rightarrow> exn + response"

text \<open>
  \<open>requests.Response.raise_for_status\<close>: an \<open>HTTPError\<close> carrying the response for a
  status from 400 to 599, nothing otherwise.
\<close>

definition raise_for_status :: "response \<Rightarrow> exn + unit" where
  "raise_for_status r =
     (if 400 \<le> status_code r \<and> status_code r < 500 then
        Inl (HTTPError (str_int (status_code r) @ py '' Client Error: '' @ reason r @
                        py '' for url: '' @ resp_url r) r)
      else if 500 \<le> status_code r \<and> status_code r < 600 then
        Inl (HTTPError (str_int (status_code r) @ py '' Server Error: '' @ reason r @
                        py '' for url: '' @ resp_url r) r)
      else Inr ())"

definition response_json :: "response \<Rightarrow> exn + json" where
  "response_json r = (case body_json r of Inl m \<Rightarrow> Inl (JSONDecodeError m) | Inr v \<Rightarrow> Inr v)"

definition cloud_platform_scopes :: "pystr list" where
  "cloud_platform_scopes = [py ''https://www.googleapis.com/auth/cloud-platform'']"

definition vertex_url :: "settings \<Rightarrow> pystr" where
  "vertex_url st =
     (let ENDPOINT = REGION st @ py ''-aiplatform.googleapis.com''
      in py ''https://'' @ ENDPOINT @ py ''/v1/projects/'' @ PROJECT_ID st @
         py ''/locations/'' @ REGION st @ py ''/endpoints/openapi/chat/completions'')"

definition vertex_headers :: "pystr \<Rightarrow> (pystr \<times> pystr) list" where
  "vertex_headers token =
     [(py ''Authorization'', py ''Bearer '' @ token),
      (py ''Content-Type'', py ''application/json'')]"

definition vertex_data :: "settings \<Rightarrow> json" where
  "vertex_data st =
     JObj [(py ''model'', JStr (MODEL_ID st)),
           (py ''stream'', JBool False),
           (py ''messages'',
              JArr [JObj [(py ''role'', JStr (py ''user'')), (py ''content'', JStr (PROMPT st))]])]"

definition vertex_request :: "settings \<Rightarrow> pystr \<Rightarrow> http_request" where
  "vertex_request st token =
     \<lparr>http_method = py ''POST'', req_url = vertex_url st,
      req_headers = vertex_headers token, req_json = vertex_data st\<rparr>"

text \<open>The body of the \<open>try\<close> statement, lines 13 to 61.\<close>

definition vertex_try_body :: "settings \<Rightarrow> http_env \<Rightarrow> unit run" where
  \<open>vertex_try_body st env =
     run_then (run_print (py ''Mencoba memanggil model: '' @ MODEL_ID st @ py ''\<newline>''))
    (run_then (run_print (py ''Mengambil token autentikasi dari gcloud...''))
    (run_then (run_call (AuthDefault cloud_platform_scopes)
                 (auth_default env cloud_platform_scopes))
    (run_bind (run_call CredentialsRefresh (refresh env)) (\<lambda>token.
     run_then (run_print ([check_mark] @ py '' Token berhasil didapatkan.\<newline>''))
    (run_then (run_print (py ''Mengirim permintaan ke: '' @ vertex_url st))
    (run_then (run_print (py ''Dengan prompt: "'' @ PROMPT st @ py ''"\<newline>''))
    (run_bind (run_call (HttpPost (vertex_request st token))
                 (requests_post env (vertex_request st token))) (\<lambda>response.
     run_then (run_result (raise_for_status response))
    (run_then (run_print (py ''--- Respons dari Model ---''))
    (run_bind (run_result (response_json response)) (\<lambda>body.
     run_then (run_print (json_dumps_indent2 body))
              (run_print ([10, check_mark] @ py '' Permintaan berhasil diproses.'')))))))))))))\<close>

text \<open>
  The three \<open>except\<close> clauses, in the order of the source: the first whose class
  matches handles the exception.
\<close>

fun vertex_handler :: "exn \<Rightarrow> unit run" where
  "vertex_handler (DefaultCredentialsError m) =
     run_then (run_print ([cross_mark] @ py '' GAGAL: Kredensial tidak ditemukan.''))
              (run_print (py ''Pastikan Anda sudah menjalankan 'gcloud auth application-default login'.''))"
| "vertex_handler (HTTPError m r) =
     run_then (run_print ([cross_mark] @ py '' GAGAL: Terjadi error HTTP '' @ str_int (status_code r)))
    (run_then (run_print (py ''--- Pesan Error dari Server ---''))
    (run_bind (run_result (response_json r)) (\<lambda>body.
     run_then (run_print (json_dumps_indent2 body))
    (run_then (run_print (py ''\<newline>Seperti yang diduga, ini kemungkinan besar karena proyek Anda belum memiliki akses ke model ini di Model Garden.''))
              (run_print (py ''Silakan aktifkan model di Google Cloud Console terlebih dahulu.''))))))"
| "vertex_handler e =
     run_print ([cross_mark] @ py '' GAGAL: Terjadi error yang tidak terduga: '' @ exn_str e)"

definition panggil_model_vertex_with :: "settings \<Rightarrow> http_env \<Rightarrow> unit run" where
  "panggil_model_vertex_with st env = run_try (vertex_try_body st env) vertex_handler"

definition panggil_model_vertex :: "http_env \<Rightarrow> unit run" where
  "panggil_model_vertex env = panggil_model_vertex_with default_settings env"

section \<open>\<open>verify_models.py\<close>: the configuration file and the live test\<close>

definition config_path :: pystr where
  "config_path = py ''src/vtx_cli/configs/models.yaml''"

definition project_id :: pystr where
  "project_id = py ''protean-tooling-476420-i8''"

definition location :: pystr where
  "location = py ''us-central1''"

definition model_to_test :: pystr where
  "model_to_test = py ''gemini-pro''"

definition test_prompt :: pystr where
  "test_prompt = py ''Explain what a Large Language Model is in one simple sentence.''"

text \<open>
  The outside world of the script: \<open>open(path, 'r')\<close> (it raises, or gives the
  stream, here its text), \<open>yaml.safe_load\<close> (it raises, or gives the object),
  \<open>str\<close> of a container or other object (see \<open>py_str\<close>), \<open>vertexai.init\<close>,
  \<open>GenerativeModel(endpoint_id)\<close>, and \<open>model.generate_content(prompt)\<close>, which
  raises or gives a response whose \<open>text\<close> property in turn raises or gives the text.
\<close>

record vertex_env =
  open_file :: "pystr \<Rightarrow> exn + pystr"
  yaml_safe_load :: "pystr \<Rightarrow> exn + pyval"
  format_object :: "pyval \<Rightarrow> pystr"
  vertexai_init :: "pystr \<Rightarrow> pystr \<Rightarrow> exn + unit"
  generative_model :: "pyval \<Rightarrow> exn + unit"
  generate_content :: "pyval \<Rightarrow> pystr \<Rightarrow> exn + (exn + pystr)"

definition quoted :: "pystr \<Rightarrow> pystr" where
  "quoted s = [39] @ s @ [39]"

definition no_attribute :: "pyval \<Rightarrow> pystr \<Rightarrow> exn" where
  "no_attribute v name =
     AttributeError (quoted (type_name v) @ py '' object has no attribute '' @ quoted name)"

text \<open>\<open>config.items()\<close>: only a mapping has the method.\<close>

fun py_items :: "pyval \<Rightarrow> exn + (pyval \<times> pyval) list" where
  "py_items (PDict kvs) = Inr kvs"
| "py_items v = Inl (no_attribute v (py ''items''))"

text \<open>\<open>details.get(key)\<close>: the value, or \<open>None\<close> when the key is absent.\<close>

fun py_get :: "pyval \<Rightarrow> pystr \<Rightarrow> exn + pyval" where
  "py_get (PDict kvs) key =
     Inr (case map_of kvs (PStr key) of None \<Rightarrow> PNone | Some v \<Rightarrow> v)"
| "py_get v key = Inl (no_attribute v (py ''get''))"

text \<open>
  \<open>d[key]\<close> on the entries of a mapping, for a string key: \<open>KeyError\<close> when the key
  is absent (its text is \<open>repr\<close> of the key; the two keys used are plain words).
\<close>

definition dict_getitem :: "(pyval \<times> pyval) list \<Rightarrow> pystr \<Rightarrow> exn + pyval" where
  "dict_getitem kvs key =
     (case map_of kvs (PStr key) of None \<Rightarrow> Inl (KeyError (quoted key)) | Some v \<Rightarrow> Inr v)"

text \<open>
  \<open>v[key]\<close> on a loaded object. On anything but a mapping it is a \<open>TypeError\<close>, whose
  text depends on the type; that branch is not reached from \<open>verify_model_usage\<close>,
  where the listing has called \<open>get\<close> on every value before.
\<close>

fun py_getitem :: "pyval \<Rightarrow> pystr \<Rightarrow> exn + pyval" where
  "py_getitem (PDict kvs) key = dict_getitem kvs key"
| "py_getitem v key = Inl (OtherException (py ''TypeError''))"

text \<open>The \<open>for\<close> loop of lines 24 and 25.\<close>

fun list_models :: "(pyval \<Rightarrow> pystr) \<Rightarrow> (pyval \<times> pyval) list \<Rightarrow> unit run" where
  "list_models fmt [] = run_return ()"
| "list_models fmt ((model_id, details) # rest) =
     run_bind (run_result (py_get details (py ''name''))) (\<lambda>name.
     run_then (run_print (py ''- '' @ py_str fmt model_id @ py '' ('' @ py_str fmt name @ py '')''))
              (list_models fmt rest))"

text \<open>
  The first \<open>try\<close> statement, lines 15 to 33. Its value says how the function goes
  on: \<open>None\<close> when a \<open>return\<close> was executed, \<open>Some\<close> of the entries of \<open>config\<close>
  otherwise (\<open>config\<close> is a mapping then, \<open>config.items()\<close> having succeeded).
\<close>

definition config_try_body :: "vertex_env \<Rightarrow> (pyval \<times> pyval) list option run" where
  "config_try_body env =
     run_bind (run_call (OpenFile config_path) (open_file env config_path)) (\<lambda>f.
     run_bind (run_result (yaml_safe_load env f)) (\<lambda>config.
     if \<not> py_truthy config then
       run_then (run_print ([cross_mark] @ py '' Error: models.yaml is empty or could not be read.''))
                (run_return None)
     else
       run_then (run_print ([check_mark] @ py '' Models available in your configuration file:''))
      (run_bind (run_result (py_items config)) (\<lambda>entries.
       run_then (list_models (format_object env) entries)
      (run_then (run_print (py ''\<newline>'' @ replicate 40 61 @ py ''\<newline>''))
                (run_return (Some entries)))))))"

fun config_handler :: "exn \<Rightarrow> (pyval \<times> pyval) list option run" where
  "config_handler (FileNotFoundError m) =
     run_then (run_print ([cross_mark] @ py '' Error: Configuration file not found at '' @ config_path))
              (run_return None)"
| "config_handler e =
     run_then (run_print ([cross_mark] @ py '' Error reading or parsing YAML file: '' @ exn_str e))
              (run_return None)"

definition load_models :: "vertex_env \<Rightarrow> (pyval \<times> pyval) list option run" where
  "load_models env = run_try (config_try_body env) config_handler"

text \<open>The second \<open>try\<close> statement, lines 44 to 67.\<close>

definition live_test_body :: "vertex_env \<Rightarrow> pyval \<Rightarrow> unit run" where
  \<open>live_test_body env endpoint_id =
     run_then (run_print (py ''1. Initializing connection to Vertex AI...''))
    (run_then (run_call (VertexInit project_id location) (vertexai_init env project_id location))
    (run_then (run_print (py ''   '' @ [check_mark] @ py '' Connection successful.\<newline>''))
    (run_then (run_print (py ''2. Accessing model...''))
    (run_then (run_call (MakeGenerativeModel endpoint_id) (generative_model env endpoint_id))
    (run_then (run_print (py ''   '' @ [check_mark] @ py '' Model accessed successfully.\<newline>''))
    (run_then (run_print (py ''3. Sending a test prompt...''))
    (run_then (run_print (py ''   Prompt: "'' @ test_prompt @ py ''"''))
    (run_bind (run_call (GenerateContent endpoint_id test_prompt)
                 (generate_content env endpoint_id test_prompt)) (\<lambda>response.
     run_then (run_print (py ''\<newline>   '' @ [robot_face] @ py '' Model Response:''))
    (run_bind (run_result response) (\<lambda>text.
     run_then (run_print (py ''   "'' @ py_strip text @ py ''"\<newline>''))
    (run_then (run_print (replicate 40 61))
              (run_print (py ''\<newline>'' @ [check_mark] @
                 py '' SUCCESS: Your gcloud configuration is correct and you can use the models in models.yaml.''))))))))))))))\<close>

definition live_test_handler :: "exn \<Rightarrow> unit run" where
  "live_test_handler e =
     run_then (run_print (py ''\<newline>'' @ [cross_mark] @
                 py '' FAILED: An error occurred during the live test: '' @ exn_str e))
    (run_then (run_print (py ''\<newline>This might be because the specific model endpoint is not available for your project,''))
              (run_print (py ''or there's a temporary issue with the service. However, your base gcloud setup is correct.'')))"

definition live_test :: "vertex_env \<Rightarrow> pyval \<Rightarrow> unit run" where
  "live_test env endpoint_id = run_try (live_test_body env endpoint_id) live_test_handler"

text \<open>
  Lines 35 to 42 stand between the two \<open>try\<close> statements, inside neither: an
  exception raised there leaves the function.
\<close>

definition probe :: "vertex_env \<Rightarrow> (pyval \<times> pyval) list \<Rightarrow> unit run" where
  "probe env config =
     (if PStr model_to_test \<notin> set (map fst config) then
        run_print (py ''Model '' @ quoted model_to_test @ py '' not found in config. Skipping live test.'')
      else
        run_bind (run_result (dict_getitem config model_to_test)) (\<lambda>details.
        run_bind (run_result (py_getitem details (py ''endpoint_id''))) (\<lambda>endpoint_id.
        run_then (run_print (py ''--- Performing a live test with '' @ quoted model_to_test @
                    py '' ('' @ py_str (format_object env) endpoint_id @ py '') ---\<newline>''))
                 (live_test env endpoint_id))))"

definition verify_model_usage :: "vertex_env \<Rightarrow> unit run" where
  "verify_model_usage env =
     run_then (run_print (py ''--- Loading models from '' @ config_path @ py '' ---\<newline>''))
    (run_bind (load_models env) (\<lambda>loaded.
       case loaded of
         None \<Rightarrow> run_return ()
       | Some config \<Rightarrow> probe env config))"

section \<open>Vocabulary of the properties and example runs\<close>

text \<open>
  The events that reach the identity provider or the Vertex AI service, as opposed to
  output on the terminal and the read of the local configuration file.
\<close>

fun is_service_call :: "event \<Rightarrow> bool" where
  "is_service_call (Print s) = False"
| "is_service_call (OpenFile p) = False"
| "is_service_call (AuthDefault scopes) = True"
| "is_service_call CredentialsRefresh = True"
| "is_service_call (HttpPost req) = True"
| "is_service_call (VertexInit p l) = True"
| "is_service_call (MakeGenerativeModel v) = True"
| "is_service_call (GenerateContent v p) = True"

text \<open>An environment with no application default credentials.\<close>

definition env_no_credentials :: http_env where
  "env_no_credentials =
     \<lparr>auth_default = (\<lambda>scopes. Inl (DefaultCredentialsError (py ''Your default credentials were not found.''))),
      refresh = Inr [],
      requests_post = (\<lambda>req. Inl (OtherException []))\<rparr>"

text \<open>An environment with credentials, whose service answers every POST with \<open>r\<close>.\<close>

definition env_answering :: "response \<Rightarrow> http_env" where
  "env_answering r =
     \<lparr>auth_default = (\<lambda>scopes. Inr ()),
      refresh = Inr (py ''ya29.token''),
      requests_post = (\<lambda>req. Inr r)\<rparr>"

definition model_not_found :: json where
  "model_not_found = JObj [(py ''error'', JObj [(py ''message'', JStr (py ''model not found''))])]"

definition response_403 :: response where
  "response_403 =
     \<lparr>status_code = 403, reason = py ''Forbidden'', resp_url = vertex_url default_settings,
      body_json = Inr model_not_found\<rparr>"

definition response_300 :: response where
  "response_300 =
     \<lparr>status_code = 300, reason = py ''Multiple Choices'', resp_url = vertex_url default_settings,
      body_json = Inr model_not_found\<rparr>"

definition response_300_html :: response where
  "response_300_html =
     \<lparr>status_code = 300, reason = py ''Multiple Choices'', resp_url = vertex_url default_settings,
      body_json = Inl (py ''Expecting value: line 1 column 1 (char 0)'')\<rparr>"

definition response_502_html :: response where
  "response_502_html =
     \<lparr>status_code = 502, reason = py ''Bad Gateway'', resp_url = vertex_url default_settings,
      body_json = Inl (py ''Expecting value: line 1 column 1 (char 0)'')\<rparr>"

text \<open>
  An environment whose configuration file loads to \<open>config\<close> and whose Vertex AI calls
  all succeed, the model answering \<open>answer\<close>.
\<close>

definition env_with_config :: "pyval \<Rightarrow> pystr \<Rightarrow> vertex_env" where
  "env_with_config config answer =
     \<lparr>open_file = (\<lambda>path. Inr []),
      yaml_safe_load = (\<lambda>f. Inr config),
      format_object = (\<lambda>v. []),
      vertexai_init = (\<lambda>p l. Inr ()),
      generative_model = (\<lambda>v. Inr ()),
      generate_content = (\<lambda>v p. Inr (Inr answer))\<rparr>"

definition env_missing_file :: vertex_env where
  "env_missing_file =
     \<lparr>open_file = (\<lambda>path. Inl (FileNotFoundError (py ''[Errno 2] No such file or directory''))),
      yaml_safe_load = (\<lambda>f. Inr PNone),
      format_object = (\<lambda>v. []),
      vertexai_init = (\<lambda>p l. Inr ()),
      generative_model = (\<lambda>v. Inr ()),
      generate_content = (\<lambda>v p. Inr (Inr []))\<rparr>"

text \<open>
  An environment in which a directory on the way to the configuration file is a
  regular file: the path does not resolve, and \<open>open\<close> raises
  \<open>NotADirectoryError\<close>, an \<open>OSError\<close> that is not a \<open>FileNotFoundError\<close>.
\<close>

definition env_parent_is_file :: vertex_env where
  "env_parent_is_file =
     \<lparr>open_file = (\<lambda>path. Inl (OtherException (py ''[Errno 20] Not a directory: '' @ quoted path))),
      yaml_safe_load = (\<lambda>f. Inr PNone),
      format_object = (\<lambda>v. []),
      vertexai_init = (\<lambda>p l. Inr ()),
      generative_model = (\<lambda>v. Inr ()),
      generate_content = (\<lambda>v p. Inr (Inr []))\<rparr>"

definition config_gemini_pro :: pyval where
  "config_gemini_pro =
     PDict [(PStr (py ''gemini-pro''),
             PDict [(PStr (py ''name''), PStr (py ''Gemini Pro'')),
                    (PStr (py ''endpoint_id''), PStr (py ''gemini-pro-001''))])]"

definition config_without_endpoint_id :: pyval where
  "config_without_endpoint_id =
     PDict [(PStr (py ''gemini-pro''), PDict [(PStr (py ''name''), PStr (py ''Gemini Pro''))])]"

definition config_other_alias :: pyval where
  "config_other_alias =
     PDict [(PStr (py ''gemini-flash''),
             PDict [(PStr (py ''name''), PStr (py ''Gemini Flash'')),
                    (PStr (py ''endpoint_id''), PStr (py ''gemini-flash-001''))])]"

section \<open>Properties\<close>

subsection \<open>Running the combinators\<close>

lemma py_append: "py a @ py b = py (a @ b)"
  by (simp add: py_def)

lemma run_bind_Inl: "run_bind (es, Inl e) f = (es, Inl e)"
  by (simp add: run_bind_def)

lemma run_bind_Inr: "run_bind (es, Inr x) f = (es @ fst (f x), snd (f x))"
  by (simp add: run_bind_def split: prod.splits)

lemma run_then_Inl: "run_then (es, Inl e) n = (es, Inl e)"
  by (simp add: run_then_def run_bind_Inl)

lemma run_then_Inr: "run_then (es, Inr x) n = (es @ fst n, snd n)"
  by (simp add: run_then_def run_bind_Inr)

lemma run_try_Inl: "run_try (es, Inl e) h = (es @ fst (h e), snd (h e))"
  by (simp add: run_try_def split: prod.splits)

lemma run_try_Inr: "run_try (es, Inr x) h = (es, Inr x)"
  by (simp add: run_try_def)

lemmas run_simps =
  run_bind_Inl run_bind_Inr run_then_Inl run_then_Inr run_try_Inl run_try_Inr
  run_print_def run_call_def run_result_def run_return_def

lemmas vertex_defs =
  panggil_model_vertex_def panggil_model_vertex_with_def vertex_try_body_def

text \<open>The run up to the POST, once the credentials and the token are there.\<close>

lemma vertex_try_body_post:
  assumes "auth_default env cloud_platform_scopes = Inr ()"
    and "refresh env = Inr token"
  shows \<open>vertex_try_body st env =
           run_then
             ([Print (py ''Mencoba memanggil model: '' @ MODEL_ID st @ py ''\<newline>''),
               Print (py ''Mengambil token autentikasi dari gcloud...''),
               AuthDefault cloud_platform_scopes,
               CredentialsRefresh,
               Print ([check_mark] @ py '' Token berhasil didapatkan.\<newline>''),
               Print (py ''Mengirim permintaan ke: '' @ vertex_url st),
               Print (py ''Dengan prompt: "'' @ PROMPT st @ py ''"\<newline>'')], Inr ())
          (run_bind (run_call (HttpPost (vertex_request st token))
                       (requests_post env (vertex_request st token))) (\<lambda>response.
           run_then (run_result (raise_for_status response))
          (run_then (run_print (py ''--- Respons dari Model ---''))
          (run_bind (run_result (response_json response)) (\<lambda>body.
           run_then (run_print (json_dumps_indent2 body))
                    (run_print ([10, check_mark] @ py '' Permintaan berhasil diproses.'')))))))\<close>
  using assms by (simp add: vertex_try_body_def run_simps)


text \<open>The handlers of the raw HTTP call only print.\<close>

lemma vertex_handler_prints: "filter is_service_call (fst (vertex_handler e)) = []"
  by (cases e) (auto simp: run_simps response_json_def split: sum.splits)

text \<open>
  The run on a response with a status from 400 to 599: \<open>raise_for_status\<close> raises,
  the \<open>HTTPError\<close> clause prints its two headings and then decodes the body.
\<close>

lemma vertex_http_error_run:
  assumes "auth_default env cloud_platform_scopes = Inr ()"
    and "refresh env = Inr token"
    and "requests_post env (vertex_request default_settings token) = Inr r"
    and "400 \<le> status_code r" and "status_code r < 600"
  shows \<open>panggil_model_vertex env =
           run_then
             ([Print (py ''Mencoba memanggil model: gemini-1.0-pro\<newline>''),
               Print (py ''Mengambil token autentikasi dari gcloud...''),
               AuthDefault cloud_platform_scopes,
               CredentialsRefresh,
               Print ([check_mark] @ py '' Token berhasil didapatkan.\<newline>''),
               Print (py ''Mengirim permintaan ke: '' @ vertex_url default_settings),
               Print (py ''Dengan prompt: "What is the capital of Texas?"\<newline>''),
               HttpPost (vertex_request default_settings token),
               Print ([cross_mark] @ py '' GAGAL: Terjadi error HTTP '' @ str_int (status_code r)),
               Print (py ''--- Pesan Error dari Server ---'')], Inr ())
          (run_bind (run_result (response_json r)) (\<lambda>body.
           run_then (run_print (json_dumps_indent2 body))
          (run_then (run_print (py ''\<newline>Seperti yang diduga, ini kemungkinan besar karena proyek Anda belum memiliki akses ke model ini di Model Garden.''))
                    (run_print (py ''Silakan aktifkan model di Google Cloud Console terlebih dahulu.'')))))\<close>
proof -
  have prompt: \<open>py ''Dengan prompt: "'' @ PROMPT default_settings @ py ''"\<newline>'' =
                py ''Dengan prompt: "What is the capital of Texas?"\<newline>''\<close>
    by (simp add: default_settings_def py_append)
  have model: "py ''Mencoba memanggil model: '' @ MODEL_ID default_settings @ py ''\<newline>'' =
               py ''Mencoba memanggil model: gemini-1.0-pro\<newline>''"
    by (simp add: default_settings_def py_append)
  show ?thesis
    unfolding panggil_model_vertex_def panggil_model_vertex_with_def
      vertex_try_body_post [OF assms(1,2)] prompt model
    using assms(3,4,5)
    by (cases "body_json r")
       (auto simp: run_simps raise_for_status_def response_json_def)
qed

subsection \<open>The raw HTTP call\<close>

text \<open>
  C5. When \<open>google.auth.default\<close> raises \<open>DefaultCredentialsError\<close>, the run prints
  the two lines of the credentials handler, makes no POST (the only call made is the
  one to the identity provider), and the process exits with status 0.
\<close>

theorem credentials_not_found:
  assumes "auth_default env cloud_platform_scopes = Inl (DefaultCredentialsError m)"
  shows "panggil_model_vertex env =
           ([Print (py ''Mencoba memanggil model: gemini-1.0-pro\<newline>''),
             Print (py ''Mengambil token autentikasi dari gcloud...''),
             AuthDefault cloud_platform_scopes,
             Print ([cross_mark] @ py '' GAGAL: Kredensial tidak ditemukan.''),
             Print (py ''Pastikan Anda sudah menjalankan 'gcloud auth application-default login'.'')],
            Inr ())
         \<and> (\<forall>req. HttpPost req \<notin> set (fst (panggil_model_vertex env)))
         \<and> exit_code (panggil_model_vertex env) = 0"
proof -
  have run: "panggil_model_vertex env =
           ([Print (py ''Mencoba memanggil model: gemini-1.0-pro\<newline>''),
             Print (py ''Mengambil token autentikasi dari gcloud...''),
             AuthDefault cloud_platform_scopes,
             Print ([cross_mark] @ py '' GAGAL: Kredensial tidak ditemukan.''),
             Print (py ''Pastikan Anda sudah menjalankan 'gcloud auth application-default login'.'')],
            Inr ())"
    using assms
    by (simp add: vertex_defs default_settings_def run_simps py_append)
  show ?thesis
    unfolding run by (simp add: exit_code_def)
qed

theorem credentials_not_found_witness:
  "auth_default env_no_credentials cloud_platform_scopes =
     Inl (DefaultCredentialsError (py ''Your default credentials were not found.''))
   \<and> fst (panggil_model_vertex env_no_credentials) =
           [Print (py ''Mencoba memanggil model: gemini-1.0-pro\<newline>''),
            Print (py ''Mengambil token autentikasi dari gcloud...''),
            AuthDefault cloud_platform_scopes,
            Print ([cross_mark] @ py '' GAGAL: Kredensial tidak ditemukan.''),
            Print (py ''Pastikan Anda sudah menjalankan 'gcloud auth application-default login'.'')]
   \<and> exit_code (panggil_model_vertex env_no_credentials) = 0"
proof -
  have h: "auth_default env_no_credentials cloud_platform_scopes =
     Inl (DefaultCredentialsError (py ''Your default credentials were not found.''))"
    by (simp add: env_no_credentials_def)
  show ?thesis
    using h credentials_not_found [OF h] by (simp add: exit_code_def)
qed

text \<open>
  C4. For every project, region, model, prompt and token, once the credentials are
  resolved the run makes exactly one POST: its URL is
  \<open>https://{region}-aiplatform.googleapis.com/v1/projects/{project}/locations/{region}/endpoints/openapi/chat/completions\<close>,
  its headers are \<open>Authorization: Bearer <token>\<close> and \<open>Content-Type: application/json\<close>,
  and its JSON body is \<open>{model, stream: false, messages: [{role: "user", content: prompt}]}\<close>.
\<close>

theorem request_built:
  assumes "auth_default env cloud_platform_scopes = Inr ()"
    and "refresh env = Inr token"
  shows "[ev \<leftarrow> fst (panggil_model_vertex_with st env). is_service_call ev] =
           [AuthDefault cloud_platform_scopes, CredentialsRefresh,
            HttpPost
              \<lparr>http_method = py ''POST'',
               req_url = py ''https://'' @ REGION st @ py ''-aiplatform.googleapis.com/v1/projects/'' @
                         PROJECT_ID st @ py ''/locations/'' @ REGION st @
                         py ''/endpoints/openapi/chat/completions'',
               req_headers = [(py ''Authorization'', py ''Bearer '' @ token),
                              (py ''Content-Type'', py ''application/json'')],
               req_json =
                 JObj [(py ''model'', JStr (MODEL_ID st)),
                       (py ''stream'', JBool False),
                       (py ''messages'',
                          JArr [JObj [(py ''role'', JStr (py ''user'')),
                                      (py ''content'', JStr (PROMPT st))]])]\<rparr>]"
proof -
  have req: "vertex_request st token =
              \<lparr>http_method = py ''POST'',
               req_url = py ''https://'' @ REGION st @ py ''-aiplatform.googleapis.com/v1/projects/'' @
                         PROJECT_ID st @ py ''/locations/'' @ REGION st @
                         py ''/endpoints/openapi/chat/completions'',
               req_headers = [(py ''Authorization'', py ''Bearer '' @ token),
                              (py ''Content-Type'', py ''application/json'')],
               req_json =
                 JObj [(py ''model'', JStr (MODEL_ID st)),
                       (py ''stream'', JBool False),
                       (py ''messages'',
                          JArr [JObj [(py ''role'', JStr (py ''user'')),
                                      (py ''content'', JStr (PROMPT st))]])]\<rparr>"
    by (simp add: vertex_request_def vertex_url_def vertex_headers_def vertex_data_def py_def)
  show ?thesis
    unfolding req [symmetric] panggil_model_vertex_with_def vertex_try_body_post [OF assms]
    by (cases "requests_post env (vertex_request st token)";
        cases "body_json (the_Inr (requests_post env (vertex_request st token)))")
       (auto simp: run_simps raise_for_status_def response_json_def vertex_handler_prints
             split: sum.splits)
qed


theorem request_built_witness:
  "auth_default (env_answering response_403) cloud_platform_scopes = Inr ()
   \<and> refresh (env_answering response_403) = Inr (py ''ya29.token'')
   \<and> [ev \<leftarrow> fst (panggil_model_vertex (env_answering response_403)). is_service_call ev] =
           [AuthDefault cloud_platform_scopes, CredentialsRefresh,
            HttpPost
              \<lparr>http_method = py ''POST'',
               req_url = py ''https://us-south1-aiplatform.googleapis.com/v1/projects/protean-tooling-476420-i8/locations/us-south1/endpoints/openapi/chat/completions'',
               req_headers = [(py ''Authorization'', py ''Bearer ya29.token''),
                              (py ''Content-Type'', py ''application/json'')],
               req_json =
                 JObj [(py ''model'', JStr (py ''gemini-1.0-pro'')),
                       (py ''stream'', JBool False),
                       (py ''messages'',
                          JArr [JObj [(py ''role'', JStr (py ''user'')),
                                      (py ''content'', JStr (py ''What is the capital of Texas?''))]])]\<rparr>]"
proof -
  have a: "auth_default (env_answering response_403) cloud_platform_scopes = Inr ()"
    by (simp add: env_answering_def)
  have t: "refresh (env_answering response_403) = Inr (py ''ya29.token'')"
    by (simp add: env_answering_def)
  show ?thesis
    using a t request_built [OF a t, of default_settings]
    by (simp add: panggil_model_vertex_def default_settings_def py_append)
qed

text \<open>
  C9, as the code has it. When the response has a status from 400 to 599 (the statuses
  for which \<open>raise_for_status\<close> raises) and its body is not valid JSON,
  the exception raised by \<open>e.response.json()\<close> inside the \<open>HTTPError\<close> clause is not
  caught by the \<open>except Exception\<close> clause of the same statement: it leaves
  \<open>panggil_model_vertex\<close> after the two headings are printed, and the process ends
  with the traceback (exit status 1).
\<close>

theorem http_error_body_not_json_propagates:
  assumes "auth_default env cloud_platform_scopes = Inr ()"
    and "refresh env = Inr token"
    and "requests_post env (vertex_request default_settings token) = Inr r"
    and "400 \<le> status_code r" and "status_code r < 600"
    and "body_json r = Inl m"
  shows \<open>panggil_model_vertex env =
           ([Print (py ''Mencoba memanggil model: gemini-1.0-pro\<newline>''),
             Print (py ''Mengambil token autentikasi dari gcloud...''),
             AuthDefault cloud_platform_scopes,
             CredentialsRefresh,
             Print ([check_mark] @ py '' Token berhasil didapatkan.\<newline>''),
             Print (py ''Mengirim permintaan ke: '' @ vertex_url default_settings),
             Print (py ''Dengan prompt: "What is the capital of Texas?"\<newline>''),
             HttpPost (vertex_request default_settings token),
             Print ([cross_mark] @ py '' GAGAL: Terjadi error HTTP '' @ str_int (status_code r)),
             Print (py ''--- Pesan Error dari Server ---'')],
            Inl (JSONDecodeError m))
         \<and> exit_code (panggil_model_vertex env) = 1\<close>
  unfolding vertex_http_error_run [OF assms(1-5)]
  using assms(6) by (simp add: run_simps response_json_def exit_code_def)

theorem http_error_body_not_json_propagates_witness:
  \<open>400 \<le> status_code response_502_html \<and> status_code response_502_html < 600
   \<and> body_json response_502_html = Inl (py ''Expecting value: line 1 column 1 (char 0)'')
   \<and> snd (panggil_model_vertex (env_answering response_502_html)) =
         Inl (JSONDecodeError (py ''Expecting value: line 1 column 1 (char 0)''))
   \<and> last (fst (panggil_model_vertex (env_answering response_502_html))) =
         Print (py ''--- Pesan Error dari Server ---'')
   \<and> exit_code (panggil_model_vertex (env_answering response_502_html)) = 1\<close>
proof -
  have a: "auth_default (env_answering response_502_html) cloud_platform_scopes = Inr ()"
    by (simp add: env_answering_def)
  have t: "refresh (env_answering response_502_html) = Inr (py ''ya29.token'')"
    by (simp add: env_answering_def)
  have p: "requests_post (env_answering response_502_html)
             (vertex_request default_settings (py ''ya29.token'')) = Inr response_502_html"
    by (simp add: env_answering_def)
  have lo: "400 \<le> status_code response_502_html"
    by (simp add: response_502_html_def)
  have hi: "status_code response_502_html < 600"
    by (simp add: response_502_html_def)
  have b: "body_json response_502_html = Inl (py ''Expecting value: line 1 column 1 (char 0)'')"
    by (simp add: response_502_html_def)
  show ?thesis
    using lo hi b http_error_body_not_json_propagates [OF a t p lo hi b]
    by (simp add: exit_code_def)
qed

text \<open>
  C9 as stated, for every response outside 200 to 299, fails at status 300 with a body
  that is not JSON: \<open>raise_for_status\<close> does not raise, \<open>response.json()\<close> raises
  inside the \<open>try\<close> body (line 60), the \<open>except Exception\<close> clause catches it and
  prints its diagnostic, and the function returns (exit status 0).
\<close>

theorem non_2xx_not_json_caught_counterexample:
  \<open>\<not> (200 \<le> status_code response_300_html \<and> status_code response_300_html < 300)
   \<and> body_json response_300_html = Inl (py ''Expecting value: line 1 column 1 (char 0)'')
   \<and> panggil_model_vertex (env_answering response_300_html) =
         ([Print (py ''Mencoba memanggil model: gemini-1.0-pro\<newline>''),
           Print (py ''Mengambil token autentikasi dari gcloud...''),
           AuthDefault cloud_platform_scopes,
           CredentialsRefresh,
           Print ([check_mark] @ py '' Token berhasil didapatkan.\<newline>''),
           Print (py ''Mengirim permintaan ke: '' @ vertex_url default_settings),
           Print (py ''Dengan prompt: "What is the capital of Texas?"\<newline>''),
           HttpPost (vertex_request default_settings (py ''ya29.token'')),
           Print (py ''--- Respons dari Model ---''),
           Print ([cross_mark] @
                  py '' GAGAL: Terjadi error yang tidak terduga: Expecting value: line 1 column 1 (char 0)'')],
          Inr ())
   \<and> exit_code (panggil_model_vertex (env_answering response_300_html)) = 0\<close>
proof -
  have a: "auth_default (env_answering response_300_html) cloud_platform_scopes = Inr ()"
    by (simp add: env_answering_def)
  have t: "refresh (env_answering response_300_html) = Inr (py ''ya29.token'')"
    by (simp add: env_answering_def)
  have run: \<open>panggil_model_vertex (env_answering response_300_html) =
         ([Print (py ''Mencoba memanggil model: gemini-1.0-pro\<newline>''),
           Print (py ''Mengambil token autentikasi dari gcloud...''),
           AuthDefault cloud_platform_scopes,
           CredentialsRefresh,
           Print ([check_mark] @ py '' Token berhasil didapatkan.\<newline>''),
           Print (py ''Mengirim permintaan ke: '' @ vertex_url default_settings),
           Print (py ''Dengan prompt: "What is the capital of Texas?"\<newline>''),
           HttpPost (vertex_request default_settings (py ''ya29.token'')),
           Print (py ''--- Respons dari Model ---''),
           Print ([cross_mark] @
                  py '' GAGAL: Terjadi error yang tidak terduga: Expecting value: line 1 column 1 (char 0)'')],
          Inr ())\<close>
    unfolding panggil_model_vertex_def panggil_model_vertex_with_def
      vertex_try_body_post [OF a t]
    by (simp add: run_simps env_answering_def response_300_html_def raise_for_status_def
        response_json_def default_settings_def py_append)
  show ?thesis
    unfolding run
    by (simp add: response_300_html_def exit_code_def)
qed

text \<open>
  C3, as the code has it. For every response with a status from 400 to 599 whose body
  decodes as JSON, the run prints the failure line with the response's status code,
  then the server's JSON body as \<open>json.dumps(body, indent=2)\<close> writes it, then the two
  lines of advice; nothing is raised and the process exits with status 0.
\<close>

theorem http_error_reported:
  assumes "auth_default env cloud_platform_scopes = Inr ()"
    and "refresh env = Inr token"
    and "requests_post env (vertex_request default_settings token) = Inr r"
    and "400 \<le> status_code r" and "status_code r < 600"
    and "body_json r = Inr body"
  shows \<open>panggil_model_vertex env =
           ([Print (py ''Mencoba memanggil model: gemini-1.0-pro\<newline>''),
             Print (py ''Mengambil token autentikasi dari gcloud...''),
             AuthDefault cloud_platform_scopes,
             CredentialsRefresh,
             Print ([check_mark] @ py '' Token berhasil didapatkan.\<newline>''),
             Print (py ''Mengirim permintaan ke: '' @ vertex_url default_settings),
             Print (py ''Dengan prompt: "What is the capital of Texas?"\<newline>''),
             HttpPost (vertex_request default_settings token),
             Print ([cross_mark] @ py '' GAGAL: Terjadi error HTTP '' @ str_int (status_code r)),
             Print (py ''--- Pesan Error dari Server ---''),
             Print (json_dumps_indent2 body),
             Print (py ''\<newline>Seperti yang diduga, ini kemungkinan besar karena proyek Anda belum memiliki akses ke model ini di Model Garden.''),
             Print (py ''Silakan aktifkan model di Google Cloud Console terlebih dahulu.'')],
            Inr ())
         \<and> exit_code (panggil_model_vertex env) = 0\<close>
  unfolding vertex_http_error_run [OF assms(1-5)]
  using assms(6) by (simp add: run_simps response_json_def exit_code_def)


theorem http_error_reported_witness:
  \<open>400 \<le> status_code response_403 \<and> status_code response_403 < 600
   \<and> body_json response_403 = Inr model_not_found
   \<and> panggil_model_vertex (env_answering response_403) =
         ([Print (py ''Mencoba memanggil model: gemini-1.0-pro\<newline>''),
           Print (py ''Mengambil token autentikasi dari gcloud...''),
           AuthDefault cloud_platform_scopes,
           CredentialsRefresh,
           Print ([check_mark] @ py '' Token berhasil didapatkan.\<newline>''),
           Print (py ''Mengirim permintaan ke: '' @ vertex_url default_settings),
           Print (py ''Dengan prompt: "What is the capital of Texas?"\<newline>''),
           HttpPost (vertex_request default_settings (py ''ya29.token'')),
           Print ([cross_mark] @ py '' GAGAL: Terjadi error HTTP 403''),
           Print (py ''--- Pesan Error dari Server ---''),
           Print (py ''{\<newline>  "error": {\<newline>    "message": "model not found"\<newline>  }\<newline>}''),
           Print (py ''\<newline>Seperti yang diduga, ini kemungkinan besar karena proyek Anda belum memiliki akses ke model ini di Model Garden.''),
           Print (py ''Silakan aktifkan model di Google Cloud Console terlebih dahulu.'')],
          Inr ())
   \<and> exit_code (panggil_model_vertex (env_answering response_403)) = 0\<close>
proof -
  have a: "auth_default (env_answering response_403) cloud_platform_scopes = Inr ()"
    by (simp add: env_answering_def)
  have t: "refresh (env_answering response_403) = Inr (py ''ya29.token'')"
    by (simp add: env_answering_def)
  have p: "requests_post (env_answering response_403)
             (vertex_request default_settings (py ''ya29.token'')) = Inr response_403"
    by (simp add: env_answering_def)
  have lo: "400 \<le> status_code response_403"
    by (simp add: response_403_def)
  have hi: "status_code response_403 < 600"
    by (simp add: response_403_def)
  have b: "body_json response_403 = Inr model_not_found"
    by (simp add: response_403_def)
  have code: "str_int (status_code response_403) = py ''403''"
    by (simp add: response_403_def str_int_def str_nat.simps py_def)
  have body: \<open>json_dumps_indent2 model_not_found =
               py ''{\<newline>  "error": {\<newline>    "message": "model not found"\<newline>  }\<newline>}''\<close>
    by (simp add: model_not_found_def json_dumps_indent2_def json_string_def json_escape_def
        newline_indent_def py_def eval_nat_numeral)
  show ?thesis
    using lo hi b http_error_reported [OF a t p lo hi b]
    by (simp add: code body py_append exit_code_def)
qed

text \<open>
  C3 as stated, for every response outside 200 to 299, fails at status 300 with a JSON
  body: \<open>raise_for_status\<close> does not raise, the body is printed as the model's
  response, and the run ends with the line of success.
\<close>

theorem non_2xx_not_reported_counterexample:
  \<open>\<not> (200 \<le> status_code response_300 \<and> status_code response_300 < 300)
   \<and> body_json response_300 = Inr model_not_found
   \<and> panggil_model_vertex (env_answering response_300) =
         ([Print (py ''Mencoba memanggil model: gemini-1.0-pro\<newline>''),
           Print (py ''Mengambil token autentikasi dari gcloud...''),
           AuthDefault cloud_platform_scopes,
           CredentialsRefresh,
           Print ([check_mark] @ py '' Token berhasil didapatkan.\<newline>''),
           Print (py ''Mengirim permintaan ke: '' @ vertex_url default_settings),
           Print (py ''Dengan prompt: "What is the capital of Texas?"\<newline>''),
           HttpPost (vertex_request default_settings (py ''ya29.token'')),
           Print (py ''--- Respons dari Model ---''),
           Print (json_dumps_indent2 model_not_found),
           Print ([10, check_mark] @ py '' Permintaan berhasil diproses.'')],
          Inr ())
   \<and> Print ([cross_mark] @ py '' GAGAL: Terjadi error HTTP 300'')
         \<notin> set (fst (panggil_model_vertex (env_answering response_300)))\<close>
proof -
  have a: "auth_default (env_answering response_300) cloud_platform_scopes = Inr ()"
    by (simp add: env_answering_def)
  have t: "refresh (env_answering response_300) = Inr (py ''ya29.token'')"
    by (simp add: env_answering_def)
  have run: \<open>panggil_model_vertex (env_answering response_300) =
         ([Print (py ''Mencoba memanggil model: gemini-1.0-pro\<newline>''),
           Print (py ''Mengambil token autentikasi dari gcloud...''),
           AuthDefault cloud_platform_scopes,
           CredentialsRefresh,
           Print ([check_mark] @ py '' Token berhasil didapatkan.\<newline>''),
           Print (py ''Mengirim permintaan ke: '' @ vertex_url default_settings),
           Print (py ''Dengan prompt: "What is the capital of Texas?"\<newline>''),
           HttpPost (vertex_request default_settings (py ''ya29.token'')),
           Print (py ''--- Respons dari Model ---''),
           Print (json_dumps_indent2 model_not_found),
           Print ([10, check_mark] @ py '' Permintaan berhasil diproses.'')],
          Inr ())\<close>
    unfolding panggil_model_vertex_def panggil_model_vertex_with_def
      vertex_try_body_post [OF a t]
    by (simp add: run_simps env_answering_def response_300_def raise_for_status_def
        response_json_def default_settings_def py_append)
  show ?thesis
    unfolding run
    by (simp add: response_300_def py_def cross_mark_def check_mark_def
        json_dumps_indent2_def model_not_found_def)
qed

subsection \<open>The configuration file\<close>

lemmas config_defs =
  verify_model_usage_def load_models_def config_try_body_def

lemma header_text:
  "py ''--- Loading models from '' @ config_path @ py '' ---\<newline>'' =
   py ''--- Loading models from src/vtx_cli/configs/models.yaml ---\<newline>''"
  by (simp add: config_path_def py_append)

text \<open>The listing loop only prints.\<close>

lemma list_models_prints: "filter is_service_call (fst (list_models fmt entries)) = []"
proof (induction entries)
  case Nil
  then show ?case by (simp add: run_simps)
next
  case (Cons entry entries)
  obtain model_id details where entry: "entry = (model_id, details)"
    by (cases entry)
  show ?case
    using Cons.IH unfolding entry
    by (cases "py_get details (py ''name'')") (simp_all add: run_simps)
qed

lemma config_handler_prints: "filter is_service_call (fst (config_handler e)) = []"
  by (cases e) (simp_all add: run_simps)

lemma load_models_no_service_call: "filter is_service_call (fst (load_models env)) = []"
proof (cases "open_file env config_path")
  case (Inl e)
  then show ?thesis
    by (simp add: load_models_def config_try_body_def run_simps config_handler_prints)
next
  case (Inr f)
  note opened = this
  show ?thesis
  proof (cases "yaml_safe_load env f")
    case (Inl e)
    with opened show ?thesis
      by (simp add: load_models_def config_try_body_def run_simps config_handler_prints)
  next
    case (Inr config)
    show ?thesis
    proof (cases "py_truthy config")
      case False
      with opened Inr show ?thesis
        by (simp add: load_models_def config_try_body_def run_simps)
    next
      case True
      show ?thesis
      proof (cases "py_items config")
        case (Inl e)
        with opened Inr True show ?thesis
          by (simp add: load_models_def config_try_body_def run_simps config_handler_prints)
      next
        case (Inr entries)
        obtain es r where listed: "list_models (format_object env) entries = (es, r)"
          by (cases "list_models (format_object env) entries")
        have "filter is_service_call es = []"
          using list_models_prints [of "format_object env" entries] listed by simp
        with opened \<open>yaml_safe_load env f = Inr config\<close> True Inr listed show ?thesis
          by (cases r)
             (simp_all add: load_models_def config_try_body_def run_simps config_handler_prints)
      qed
    qed
  qed
qed

text \<open>
  C6, as the code has it. When \<open>open\<close> raises \<open>FileNotFoundError\<close> (the file, or
  a directory on the way to it, does not exist), the run prints the line of the
  \<open>FileNotFoundError\<close> clause (configuration file not found at the path) and returns;
  the line of the generic clause (error reading or parsing the YAML file) is not
  printed, whatever the exception text.
\<close>

theorem missing_file_reports_not_found:
  assumes "open_file env config_path = Inl (FileNotFoundError m)"
  shows "verify_model_usage env =
           ([Print (py ''--- Loading models from src/vtx_cli/configs/models.yaml ---\<newline>''),
             OpenFile config_path,
             Print ([cross_mark] @
                    py '' Error: Configuration file not found at src/vtx_cli/configs/models.yaml'')],
            Inr ())
         \<and> (\<forall>e. Print ([cross_mark] @ py '' Error reading or parsing YAML file: '' @ exn_str e)
                 \<notin> set (fst (verify_model_usage env)))"
proof -
  have run: "verify_model_usage env =
           ([Print (py ''--- Loading models from src/vtx_cli/configs/models.yaml ---\<newline>''),
             OpenFile config_path,
             Print ([cross_mark] @
                    py '' Error: Configuration file not found at src/vtx_cli/configs/models.yaml'')],
            Inr ())"
    using assms
    by (simp add: config_defs run_simps header_text)
       (simp add: config_path_def py_append)
  show ?thesis
    unfolding run by (simp add: py_def cross_mark_def)
qed

theorem missing_file_reports_not_found_witness:
  "open_file env_missing_file config_path =
     Inl (FileNotFoundError (py ''[Errno 2] No such file or directory''))
   \<and> verify_model_usage env_missing_file =
           ([Print (py ''--- Loading models from src/vtx_cli/configs/models.yaml ---\<newline>''),
             OpenFile config_path,
             Print ([cross_mark] @
                    py '' Error: Configuration file not found at src/vtx_cli/configs/models.yaml'')],
            Inr ())"
proof -
  have h: "open_file env_missing_file config_path =
     Inl (FileNotFoundError (py ''[Errno 2] No such file or directory''))"
    by (simp add: env_missing_file_def)
  show ?thesis
    using h missing_file_reports_not_found [OF h] by simp
qed

text \<open>
  C6 as stated, for every path that does not resolve to a file, fails where a
  directory on the way is a regular file: \<open>open\<close> raises \<open>NotADirectoryError\<close>,
  which the \<open>FileNotFoundError\<close> clause does not match, and the run prints the line
  of the generic clause, not the line that the file was not found.
\<close>

theorem unresolved_path_generic_counterexample:
  "open_file env_parent_is_file config_path =
     Inl (OtherException (py ''[Errno 20] Not a directory: '' @ quoted config_path))
   \<and> verify_model_usage env_parent_is_file =
         ([Print (py ''--- Loading models from src/vtx_cli/configs/models.yaml ---\<newline>''),
           OpenFile config_path,
           Print ([cross_mark] @
                  py '' Error reading or parsing YAML file: [Errno 20] Not a directory: '' @
                  quoted config_path)],
          Inr ())
   \<and> Print ([cross_mark] @
              py '' Error: Configuration file not found at src/vtx_cli/configs/models.yaml'')
         \<notin> set (fst (verify_model_usage env_parent_is_file))"
proof -
  have run: "verify_model_usage env_parent_is_file =
         ([Print (py ''--- Loading models from src/vtx_cli/configs/models.yaml ---\<newline>''),
           OpenFile config_path,
           Print ([cross_mark] @
                  py '' Error reading or parsing YAML file: [Errno 20] Not a directory: '' @
                  quoted config_path)],
          Inr ())"
    by (simp add: config_defs run_simps header_text env_parent_is_file_def py_append)
  show ?thesis
    unfolding run
    by (simp add: env_parent_is_file_def py_def cross_mark_def)
qed

text \<open>
  C7. When the file parses to an empty mapping, the run prints that \<open>models.yaml\<close> is
  empty or could not be read and returns: nothing is listed, and no call to Vertex AI
  is made.
\<close>

theorem empty_mapping_reports_empty:
  assumes "open_file env config_path = Inr f"
    and "yaml_safe_load env f = Inr (PDict [])"
  shows "verify_model_usage env =
           ([Print (py ''--- Loading models from src/vtx_cli/configs/models.yaml ---\<newline>''),
             OpenFile config_path,
             Print ([cross_mark] @ py '' Error: models.yaml is empty or could not be read.'')],
            Inr ())
         \<and> filter is_service_call (fst (verify_model_usage env)) = []"
proof -
  have run: "verify_model_usage env =
           ([Print (py ''--- Loading models from src/vtx_cli/configs/models.yaml ---\<newline>''),
             OpenFile config_path,
             Print ([cross_mark] @ py '' Error: models.yaml is empty or could not be read.'')],
            Inr ())"
    using assms by (simp add: config_defs run_simps header_text)
  show ?thesis
    unfolding run by simp
qed

theorem empty_mapping_reports_empty_witness:
  "open_file (env_with_config (PDict []) []) config_path = Inr []
   \<and> yaml_safe_load (env_with_config (PDict []) []) [] = Inr (PDict [])
   \<and> verify_model_usage (env_with_config (PDict []) []) =
           ([Print (py ''--- Loading models from src/vtx_cli/configs/models.yaml ---\<newline>''),
             OpenFile config_path,
             Print ([cross_mark] @ py '' Error: models.yaml is empty or could not be read.'')],
            Inr ())"
proof -
  have o: "open_file (env_with_config (PDict []) []) config_path = Inr []"
    by (simp add: env_with_config_def)
  have l: "yaml_safe_load (env_with_config (PDict []) []) [] = Inr (PDict [])"
    by (simp add: env_with_config_def)
  show ?thesis
    using o l empty_mapping_reports_empty [OF o l] by simp
qed


subsection \<open>The probe\<close>

text \<open>
  C2. Whenever the configuration has loaded and the alias under test is not one of its
  keys, the run prints that the model was not found and that the live test is skipped,
  and returns (exit status 0): nothing is raised, and no call to Vertex AI is made.
\<close>

theorem absent_alias_skips_live_test:
  assumes "load_models env = (es, Inr (Some config))"
    and "PStr model_to_test \<notin> fst ` set config"
  shows "verify_model_usage env =
           (Print (py ''--- Loading models from src/vtx_cli/configs/models.yaml ---\<newline>'') # es @
            [Print (py ''Model 'gemini-pro' not found in config. Skipping live test.'')],
            Inr ())
         \<and> filter is_service_call (fst (verify_model_usage env)) = []
         \<and> exit_code (verify_model_usage env) = 0"
proof -
  have skip: "py ''Model '' @ quoted model_to_test @ py '' not found in config. Skipping live test.'' =
              py ''Model 'gemini-pro' not found in config. Skipping live test.''"
    by (simp add: quoted_def model_to_test_def py_def)
  have quiet: "filter is_service_call es = []"
    using load_models_no_service_call [of env] assms(1) by simp
  have run: "verify_model_usage env =
           (Print (py ''--- Loading models from src/vtx_cli/configs/models.yaml ---\<newline>'') # es @
            [Print (py ''Model 'gemini-pro' not found in config. Skipping live test.'')],
            Inr ())"
    using assms
    by (simp add: verify_model_usage_def probe_def run_simps header_text skip)
  show ?thesis
    unfolding run using quiet by (simp add: exit_code_def)
qed

theorem absent_alias_skips_live_test_witness:
  "PStr model_to_test \<notin> fst ` set [(PStr (py ''gemini-flash''),
       PDict [(PStr (py ''name''), PStr (py ''Gemini Flash'')),
              (PStr (py ''endpoint_id''), PStr (py ''gemini-flash-001''))])]
   \<and> verify_model_usage (env_with_config config_other_alias []) =
         ([Print (py ''--- Loading models from src/vtx_cli/configs/models.yaml ---\<newline>''),
           OpenFile config_path,
           Print ([check_mark] @ py '' Models available in your configuration file:''),
           Print (py ''- gemini-flash (Gemini Flash)''),
           Print (py ''\<newline>'' @ replicate 40 61 @ py ''\<newline>''),
           Print (py ''Model 'gemini-pro' not found in config. Skipping live test.'')],
          Inr ())
   \<and> exit_code (verify_model_usage (env_with_config config_other_alias [])) = 0"
proof -
  have loaded: "load_models (env_with_config config_other_alias []) =
         ([OpenFile config_path,
           Print ([check_mark] @ py '' Models available in your configuration file:''),
           Print (py ''- gemini-flash (Gemini Flash)''),
           Print (py ''\<newline>'' @ replicate 40 61 @ py ''\<newline>'')],
          Inr (Some [(PStr (py ''gemini-flash''),
                 PDict [(PStr (py ''name''), PStr (py ''Gemini Flash'')),
                        (PStr (py ''endpoint_id''), PStr (py ''gemini-flash-001''))])]))"
    by (simp add: load_models_def config_try_body_def env_with_config_def
        config_other_alias_def run_simps py_def)
  have absent: "PStr model_to_test \<notin> fst ` set [(PStr (py ''gemini-flash''),
       PDict [(PStr (py ''name''), PStr (py ''Gemini Flash'')),
              (PStr (py ''endpoint_id''), PStr (py ''gemini-flash-001''))])]"
    by (simp add: model_to_test_def py_def)
  show ?thesis
    using absent absent_alias_skips_live_test [OF loaded absent]
    by (simp add: exit_code_def)
qed

text \<open>
  C8. From the configuration
  \<open>{"gemini-pro": {"name": "Gemini Pro", "endpoint_id": "gemini-pro-001"}}\<close> the loader
  lists the entry as \<open>- gemini-pro (Gemini Pro)\<close> (the key is the alias, the \<open>name\<close>
  field the display name), and the probe announces and runs the live test on the
  endpoint identifier \<open>gemini-pro-001\<close> (the \<open>endpoint_id\<close> field).
\<close>

theorem gemini_pro_round_trip:
  assumes "open_file env config_path = Inr f"
    and "yaml_safe_load env f =
           Inr (PDict [(PStr (py ''gemini-pro''),
                        PDict [(PStr (py ''name''), PStr (py ''Gemini Pro'')),
                               (PStr (py ''endpoint_id''), PStr (py ''gemini-pro-001''))])])"
  shows "load_models env =
           ([OpenFile config_path,
             Print ([check_mark] @ py '' Models available in your configuration file:''),
             Print (py ''- gemini-pro (Gemini Pro)''),
             Print (py ''\<newline>'' @ replicate 40 61 @ py ''\<newline>'')],
            Inr (Some [(PStr (py ''gemini-pro''),
                        PDict [(PStr (py ''name''), PStr (py ''Gemini Pro'')),
                               (PStr (py ''endpoint_id''), PStr (py ''gemini-pro-001''))])]))
         \<and> verify_model_usage env =
             run_then
               ([Print (py ''--- Loading models from src/vtx_cli/configs/models.yaml ---\<newline>''),
                 OpenFile config_path,
                 Print ([check_mark] @ py '' Models available in your configuration file:''),
                 Print (py ''- gemini-pro (Gemini Pro)''),
                 Print (py ''\<newline>'' @ replicate 40 61 @ py ''\<newline>''),
                 Print (py ''--- Performing a live test with 'gemini-pro' (gemini-pro-001) ---\<newline>'')],
                Inr ())
               (live_test env (PStr (py ''gemini-pro-001'')))"
proof -
  have loaded: "load_models env =
           ([OpenFile config_path,
             Print ([check_mark] @ py '' Models available in your configuration file:''),
             Print (py ''- gemini-pro (Gemini Pro)''),
             Print (py ''\<newline>'' @ replicate 40 61 @ py ''\<newline>'')],
            Inr (Some [(PStr (py ''gemini-pro''),
                        PDict [(PStr (py ''name''), PStr (py ''Gemini Pro'')),
                               (PStr (py ''endpoint_id''), PStr (py ''gemini-pro-001''))])]))"
    using assms
    by (simp add: load_models_def config_try_body_def run_simps py_def)
  have announce: "py ''--- Performing a live test with '' @ quoted model_to_test @ py '' ('' @
                  py ''gemini-pro-001'' @ py '') ---\<newline>'' =
                  py ''--- Performing a live test with 'gemini-pro' (gemini-pro-001) ---\<newline>''"
    by (simp add: quoted_def model_to_test_def py_def)
  have probed: "probe env [(PStr (py ''gemini-pro''),
                        PDict [(PStr (py ''name''), PStr (py ''Gemini Pro'')),
                               (PStr (py ''endpoint_id''), PStr (py ''gemini-pro-001''))])] =
      run_then
        ([Print (py ''--- Performing a live test with 'gemini-pro' (gemini-pro-001) ---\<newline>'')], Inr ())
        (live_test env (PStr (py ''gemini-pro-001'')))"
    unfolding announce [symmetric]
    by (simp add: probe_def dict_getitem_def model_to_test_def run_simps)
       (simp add: py_def)
  show ?thesis
    unfolding verify_model_usage_def loaded header_text
    by (simp add: run_simps probed)
qed


theorem gemini_pro_round_trip_witness:
  \<open>open_file (env_with_config config_gemini_pro (py '' A model of text.\<newline>'')) config_path = Inr []
   \<and> yaml_safe_load (env_with_config config_gemini_pro (py '' A model of text.\<newline>'')) [] =
         Inr (PDict [(PStr (py ''gemini-pro''),
                      PDict [(PStr (py ''name''), PStr (py ''Gemini Pro'')),
                             (PStr (py ''endpoint_id''), PStr (py ''gemini-pro-001''))])])
   \<and> verify_model_usage (env_with_config config_gemini_pro (py '' A model of text.\<newline>'')) =
         ([Print (py ''--- Loading models from src/vtx_cli/configs/models.yaml ---\<newline>''),
           OpenFile config_path,
           Print ([check_mark] @ py '' Models available in your configuration file:''),
           Print (py ''- gemini-pro (Gemini Pro)''),
           Print (py ''\<newline>'' @ replicate 40 61 @ py ''\<newline>''),
           Print (py ''--- Performing a live test with 'gemini-pro' (gemini-pro-001) ---\<newline>''),
           Print (py ''1. Initializing connection to Vertex AI...''),
           VertexInit project_id location,
           Print (py ''   '' @ [check_mark] @ py '' Connection successful.\<newline>''),
           Print (py ''2. Accessing model...''),
           MakeGenerativeModel (PStr (py ''gemini-pro-001'')),
           Print (py ''   '' @ [check_mark] @ py '' Model accessed successfully.\<newline>''),
           Print (py ''3. Sending a test prompt...''),
           Print (py ''   Prompt: "'' @ test_prompt @ py ''"''),
           GenerateContent (PStr (py ''gemini-pro-001'')) test_prompt,
           Print (py ''\<newline>   '' @ [robot_face] @ py '' Model Response:''),
           Print (py ''   "A model of text."\<newline>''),
           Print (replicate 40 61),
           Print (py ''\<newline>'' @ [check_mark] @
                  py '' SUCCESS: Your gcloud configuration is correct and you can use the models in models.yaml.'')],
          Inr ())\<close>
proof -
  have o: \<open>open_file (env_with_config config_gemini_pro (py '' A model of text.\<newline>'')) config_path = Inr []\<close>
    by (simp add: env_with_config_def)
  have l: \<open>yaml_safe_load (env_with_config config_gemini_pro (py '' A model of text.\<newline>'')) [] =
         Inr (PDict [(PStr (py ''gemini-pro''),
                      PDict [(PStr (py ''name''), PStr (py ''Gemini Pro'')),
                             (PStr (py ''endpoint_id''), PStr (py ''gemini-pro-001''))])])\<close>
    by (simp add: env_with_config_def config_gemini_pro_def)
  have stripped: \<open>py ''   "'' @ py_strip (py '' A model of text.\<newline>'') @ py ''"\<newline>'' =
                  py ''   "A model of text."\<newline>''\<close>
    by (simp add: py_strip_def py_isspace_def py_def)
  have live: \<open>live_test (env_with_config config_gemini_pro (py '' A model of text.\<newline>''))
                 (PStr (py ''gemini-pro-001'')) =
         ([Print (py ''1. Initializing connection to Vertex AI...''),
           VertexInit project_id location,
           Print (py ''   '' @ [check_mark] @ py '' Connection successful.\<newline>''),
           Print (py ''2. Accessing model...''),
           MakeGenerativeModel (PStr (py ''gemini-pro-001'')),
           Print (py ''   '' @ [check_mark] @ py '' Model accessed successfully.\<newline>''),
           Print (py ''3. Sending a test prompt...''),
           Print (py ''   Prompt: "'' @ test_prompt @ py ''"''),
           GenerateContent (PStr (py ''gemini-pro-001'')) test_prompt,
           Print (py ''\<newline>   '' @ [robot_face] @ py '' Model Response:''),
           Print (py ''   "A model of text."\<newline>''),
           Print (replicate 40 61),
           Print (py ''\<newline>'' @ [check_mark] @
                  py '' SUCCESS: Your gcloud configuration is correct and you can use the models in models.yaml.'')],
          Inr ())\<close>
    unfolding stripped [symmetric]
    by (simp add: live_test_def live_test_body_def env_with_config_def run_simps)
  show ?thesis
    using o l gemini_pro_round_trip [OF o l]
    by (simp add: live run_simps)
qed

text \<open>
  C10. The listing reads the display name with \<open>details.get('name')\<close>: over entries
  whose values are mappings it never raises, whichever fields they have, and an entry
  without \<open>name\<close> is listed with \<open>None\<close> in its place. The endpoint identifier of
  the alias under test is read with \<open>config[model_to_test]['endpoint_id']\<close>: a mapping
  without \<open>endpoint_id\<close> raises \<open>KeyError\<close> there, before anything is printed.
\<close>

theorem display_name_optional_endpoint_id_required:
  assumes "\<forall>details \<in> snd ` set config. \<exists>attrs. details = PDict attrs"
    and "map_of unnamed (PStr (py ''name'')) = None"
    and "map_of probed (PStr model_to_test) = Some (PDict attrs)"
    and "map_of attrs (PStr (py ''endpoint_id'')) = None"
  shows "snd (list_models fmt config) = Inr ()
         \<and> list_models fmt [(PStr alias, PDict unnamed)] =
             ([Print (py ''- '' @ alias @ py '' (None)'')], Inr ())
         \<and> probe env probed = ([], Inl (KeyError (quoted (py ''endpoint_id''))))"
proof -
  have listing: "snd (list_models fmt config) = Inr ()"
    using assms(1)
  proof (induction config)
    case Nil
    then show ?case by (simp add: run_simps)
  next
    case (Cons entry config)
    obtain model_id attrs' where entry: "entry = (model_id, PDict attrs')"
      using Cons.prems by (cases entry) auto
    have "snd (list_models fmt config) = Inr ()"
      using Cons by simp
    then show ?case
      unfolding entry by (simp add: run_simps)
  qed
  have unnamed: "list_models fmt [(PStr alias, PDict unnamed)] =
             ([Print (py ''- '' @ alias @ py '' (None)'')], Inr ())"
    using assms(2) by (simp add: run_simps py_append)
  have present: "PStr model_to_test \<in> set (map fst probed)"
    using assms(3) by (force dest: map_of_SomeD)
  have raised: "probe env probed = ([], Inl (KeyError (quoted (py ''endpoint_id''))))"
    using assms(3,4) present
    by (simp add: probe_def dict_getitem_def run_simps)
  show ?thesis
    using listing unnamed raised by simp
qed

theorem display_name_optional_endpoint_id_required_witness:
  "snd (list_models (\<lambda>v. [])
          [(PStr (py ''gemini-pro''), PDict [(PStr (py ''endpoint_id''), PStr (py ''gemini-pro-001''))]),
           (PStr (py ''gemini-flash''), PDict [])]) = Inr ()
   \<and> list_models (\<lambda>v. [])
         [(PStr (py ''gemini-pro''), PDict [(PStr (py ''endpoint_id''), PStr (py ''gemini-pro-001''))])] =
         ([Print (py ''- gemini-pro (None)'')], Inr ())
   \<and> probe (env_with_config config_without_endpoint_id [])
         [(PStr (py ''gemini-pro''), PDict [(PStr (py ''name''), PStr (py ''Gemini Pro''))])] =
         ([], Inl (KeyError (quoted (py ''endpoint_id''))))"
proof -
  have maps: "\<forall>details \<in> snd ` set
          [(PStr (py ''gemini-pro''), PDict [(PStr (py ''endpoint_id''), PStr (py ''gemini-pro-001''))]),
           (PStr (py ''gemini-flash''), PDict [])]. \<exists>attrs. details = PDict attrs"
    by simp
  have unnamed: "map_of [(PStr (py ''endpoint_id''), PStr (py ''gemini-pro-001''))]
                   (PStr (py ''name'')) = None"
    by (simp add: py_def)
  have probed: "map_of [(PStr (py ''gemini-pro''), PDict [(PStr (py ''name''), PStr (py ''Gemini Pro''))])]
                  (PStr model_to_test) = Some (PDict [(PStr (py ''name''), PStr (py ''Gemini Pro''))])"
    by (simp add: model_to_test_def)
  have attrs: "map_of [(PStr (py ''name''), PStr (py ''Gemini Pro''))]
                  (PStr (py ''endpoint_id'')) = None"
    by (simp add: py_def)
  show ?thesis
    using display_name_optional_endpoint_id_required [OF maps unnamed probed attrs,
        of "\<lambda>v. []" "py ''gemini-pro''" "env_with_config config_without_endpoint_id []"]
    by (simp add: py_append)
qed

text \<open>
  C1, at a configuration whose entry for the alias under test has no \<open>endpoint_id\<close>
  field: the listing is printed, then the \<open>KeyError\<close> of line 41 leaves
  \<open>verify_model_usage\<close>, and the process ends with exit status 1.
\<close>

theorem missing_endpoint_id_raises:
  "verify_model_usage (env_with_config config_without_endpoint_id []) =
     ([Print (py ''--- Loading models from src/vtx_cli/configs/models.yaml ---\<newline>''),
       OpenFile config_path,
       Print ([check_mark] @ py '' Models available in your configuration file:''),
       Print (py ''- gemini-pro (Gemini Pro)''),
       Print (py ''\<newline>'' @ replicate 40 61 @ py ''\<newline>'')],
      Inl (KeyError (quoted (py ''endpoint_id''))))
   \<and> exit_code (verify_model_usage (env_with_config config_without_endpoint_id [])) = 1"
proof -
  have run: "verify_model_usage (env_with_config config_without_endpoint_id []) =
     ([Print (py ''--- Loading models from src/vtx_cli/configs/models.yaml ---\<newline>''),
       OpenFile config_path,
       Print ([check_mark] @ py '' Models available in your configuration file:''),
       Print (py ''- gemini-pro (Gemini Pro)''),
       Print (py ''\<newline>'' @ replicate 40 61 @ py ''\<newline>'')],
      Inl (KeyError (quoted (py ''endpoint_id''))))"
    by (simp add: config_defs probe_def dict_getitem_def env_with_config_def
        config_without_endpoint_id_def model_to_test_def run_simps header_text)
       (simp add: py_def)
  show ?thesis
    unfolding run by (simp add: exit_code_def)
qed

end
